theory Spec2Isabelle
  imports Main
begin

section \<open>Shared vocabulary of the tabs\<close>

text \<open>
  The tab state machine of goread: \<^verbatim>\<open>RssFeedTab\<close> (package feed, the second listing
  of \<^verbatim>\<open>src/unnamed/part_000\<close>, which has \<^verbatim>\<open>loadTab\<close>) and the category tab
  \<^verbatim>\<open>Model\<close> (\<^verbatim>\<open>src/internal/model/tab/category/category.go\<close>).

  Go's \<^verbatim>\<open>int\<close> is modelled as \<^typ>\<open>int\<close>. The arithmetic of the two tabs is
  \<^verbatim>\<open>w / 4\<close>, \<^verbatim>\<open>w - w/4 - 4\<close>, \<^verbatim>\<open>h - 5\<close>, and \<^verbatim>\<open>i % (n - 1)\<close> on a list index and a
  list length; none of these leaves the 64-bit range on values that are in it, so
  no wrap-around is written out. Go's \<^verbatim>\<open>/\<close> and \<^verbatim>\<open>%\<close> truncate towards zero, and
  panic on a zero divisor; the divisors of the code are the constant 4 and
  \<^verbatim>\<open>itemCount - 1\<close> on the branch where \<^verbatim>\<open>itemCount\<close> is the length of a non-empty
  list and is not 1.
\<close>

definition go_quo :: "int \<Rightarrow> int \<Rightarrow> int" where
  "go_quo a b = (if (a < 0) = (b < 0) then \<bar>a\<bar> div \<bar>b\<bar> else - (\<bar>a\<bar> div \<bar>b\<bar>))"

definition go_rem :: "int \<Rightarrow> int \<Rightarrow> int" where
  "go_rem a b = a - b * go_quo a b"

text \<open>
  Modelled from the spec: the declaration of the display item (\<^verbatim>\<open>simpleList.ListItem\<close>
  in the feed package, \<^verbatim>\<open>simplelist.Item\<close> in the category package) is not among the
  sources. The specification gives it a filter/identity string, a short description
  and a long-form body; these are the three getters the tabs call, and the three
  fields here.
\<close>

record ListItem =
  FilterValue :: string
  Description :: string
  GetContent :: string

text \<open>\<^verbatim>\<open>tab.Type\<close> of \<^verbatim>\<open>tab.go\<close>, and the item kinds of the backend.\<close>

datatype TabType = Welcome | Feed | Category

datatype ItemType = backend_Category | backend_Feed

text \<open>
  \<^verbatim>\<open>tea.Msg\<close> is an empty interface. The tabs distinguish
  \<^verbatim>\<open>backend.FetchSuccessMessage\<close>, \<^verbatim>\<open>tea.KeyMsg\<close> (of which only \<^verbatim>\<open>msg.String()\<close>
  is read) and everything else (window sizes, spinner ticks, ...), carried opaquely.
\<close>

text \<open>
  Modelled from the spec: the declaration of \<^verbatim>\<open>backend.FetchSuccessMessage\<close> is not
  among the sources. The specification describes it as \<open>FetchSuccess{title, items}\<close>;
  the first argument is that title, the second is the field \<^verbatim>\<open>Items\<close>, the only one
  the code reads.
\<close>

datatype 'x Msg =
  FetchSuccessMessage string "ListItem list"
| KeyMsg string
| OtherMsg 'x

text \<open>
  \<^verbatim>\<open>tea.Cmd\<close>: the commands the tabs build themselves, and the commands handed back
  by the widgets, carried opaquely. A \<^verbatim>\<open>nil\<close> command is \<^term>\<open>None\<close>.
\<close>

datatype 'c Cmd =
  NewTab string TabType
| NewItem ItemType bool "string list" "string list option"
| DeleteItem ItemType string
| WidgetCmd 'c

text \<open>
  A run-time panic of the Go program: a type assertion on, or a method call through,
  a \<^verbatim>\<open>nil\<close> interface value.
\<close>

datatype panic = NilInterface

section \<open>The widgets of the feed tab\<close>

text \<open>
  The list and the viewport are widgets of the bubbles library. Their state is
  modelled by the fields that the tab sets or reads; their own \<^verbatim>\<open>Update\<close> functions
  (keyboard navigation, scrolling, filtering) are parameters of the tab's update.
\<close>

record DefaultDelegate =
  ShowDescription :: bool
  delegate_height :: int

definition NewDefaultDelegate :: DefaultDelegate where
  "NewDefaultDelegate = \<lparr>ShowDescription = True, delegate_height = 2\<rparr>"

record list_Model =
  list_items :: "ListItem list"
  list_delegate :: DefaultDelegate
  list_width :: int
  list_height :: int
  list_index :: int
  showHelp :: bool
  showTitle :: bool
  showStatusBar :: bool

text \<open>The zero value of the struct, which a tab holds before it is loaded.\<close>

definition list_zero :: list_Model where
  "list_zero = \<lparr>list_items = [], list_delegate = \<lparr>ShowDescription = False, delegate_height = 0\<rparr>,
     list_width = 0, list_height = 0, list_index = 0,
     showHelp = False, showTitle = False, showStatusBar = False\<rparr>"

definition list_New :: "ListItem list \<Rightarrow> DefaultDelegate \<Rightarrow> int \<Rightarrow> int \<Rightarrow> list_Model" where
  "list_New items delegate width height =
     \<lparr>list_items = items, list_delegate = delegate, list_width = width, list_height = height,
      list_index = 0, showHelp = True, showTitle = True, showStatusBar = True\<rparr>"

text \<open>
  \<^verbatim>\<open>SelectedItem\<close> of the bubbles list answers \<^verbatim>\<open>nil\<close> when the index is outside the
  items; \<^term>\<open>None\<close> is that \<^verbatim>\<open>nil\<close>.
\<close>

definition list_SelectedItem :: "list_Model \<Rightarrow> ListItem option" where
  "list_SelectedItem l =
     (let i = list_index l; items = list_items l in
      if i < 0 \<or> length items = 0 \<or> int (length items) \<le> i then None
      else Some (items ! nat i))"

record viewport_Model =
  viewport_Width :: int
  viewport_Height :: int
  viewport_content :: string

definition viewport_zero :: viewport_Model where
  "viewport_zero = \<lparr>viewport_Width = 0, viewport_Height = 0, viewport_content = []\<rparr>"

definition viewport_New :: "int \<Rightarrow> int \<Rightarrow> viewport_Model" where
  "viewport_New width height =
     \<lparr>viewport_Width = width, viewport_Height = height, viewport_content = []\<rparr>"

definition viewport_SetContent :: "viewport_Model \<Rightarrow> string \<Rightarrow> viewport_Model" where
  "viewport_SetContent v s = v\<lparr>viewport_content := s\<rparr>"

text \<open>
  The collaborators of the feed tab that are not part of the sources: the update
  functions of the three widgets, and \<^verbatim>\<open>ListItem.WrapDescription\<close>.
\<close>

record ('x, 'c, 's) feed_env =
  list_Update :: "list_Model \<Rightarrow> 'x Msg \<Rightarrow> list_Model \<times> 'c option"
  viewport_Update :: "viewport_Model \<Rightarrow> 'x Msg \<Rightarrow> viewport_Model \<times> 'c option"
  spinner_Update :: "'s \<Rightarrow> 'x Msg \<Rightarrow> 's \<times> 'c option"
  WrapDescription :: "ListItem \<Rightarrow> int \<Rightarrow> ListItem"

text \<open>The package-level variables \<^verbatim>\<open>style.WindowWidth\<close> and \<^verbatim>\<open>style.WindowHeight\<close>.\<close>

record style =
  WindowWidth :: int
  WindowHeight :: int

section \<open>The feed tab\<close>

datatype SelectedPane = articlesList | articlesPreview

text \<open>
  \<^verbatim>\<open>RssFeedTab\<close>. The fields \<^verbatim>\<open>viewedItem\<close> and \<^verbatim>\<open>content\<close> are never written or
  read by the methods, and \<^verbatim>\<open>readerFunc\<close> is used by \<^verbatim>\<open>Init\<close> only; they are left out.
\<close>

record 's RssFeedTab =
  r_title :: string
  r_index :: int
  r_loaded :: bool
  r_loadingSpinner :: 's
  r_list :: list_Model
  r_isViewportOpen :: bool
  r_viewport :: viewport_Model
  r_selected :: SelectedPane

definition RssFeedTab_New :: "string \<Rightarrow> int \<Rightarrow> 's \<Rightarrow> 's RssFeedTab" where
  "RssFeedTab_New title index spin =
     \<lparr>r_title = title, r_index = index, r_loaded = False, r_loadingSpinner = spin,
      r_list = list_zero, r_isViewportOpen = False, r_viewport = viewport_zero,
      r_selected = articlesList\<rparr>"


definition loadTab ::
  "style \<Rightarrow> ('x, 'c, 's) feed_env \<Rightarrow> 's RssFeedTab \<Rightarrow> ListItem list \<Rightarrow> 's RssFeedTab" where
  "loadTab S E r items =
     (let listWidth = go_quo (WindowWidth S) 4;
          viewportWidth = WindowWidth S - listWidth - 4;
          itemDelegate = NewDefaultDelegate\<lparr>ShowDescription := True, delegate_height := 3\<rparr>;
          items' = map (\<lambda>it. WrapDescription E it listWidth) items;
          l = list_New items' itemDelegate listWidth (WindowHeight S - 5);
          l' = l\<lparr>showHelp := False, showTitle := False, showStatusBar := False\<rparr>
      in r\<lparr>r_list := l',
            r_viewport := viewport_New viewportWidth (WindowHeight S - 5),
            r_loaded := True\<rparr>)"

text \<open>
  The tail of \<^verbatim>\<open>Update\<close>, reached by every event that no branch has returned on:
  the event goes to the pane that has the focus.
\<close>

definition updatePane ::
  "('x, 'c, 's) feed_env \<Rightarrow> 's RssFeedTab \<Rightarrow> 'x Msg \<Rightarrow> 's RssFeedTab \<times> 'c Cmd option" where
  "updatePane E r msg =
     (if r_selected r = articlesList then
        (if r_loaded r then
           (let (l, cmd) = list_Update E (r_list r) msg
            in (r\<lparr>r_list := l\<rparr>, map_option WidgetCmd cmd))
         else (r, None))
      else
        (let (v, cmd) = viewport_Update E (r_viewport r) msg
         in (r\<lparr>r_viewport := v\<rparr>, map_option WidgetCmd cmd)))"

definition RssFeedTab_Update ::
  "style \<Rightarrow> ('x, 'c, 's) feed_env \<Rightarrow> 's RssFeedTab \<Rightarrow> 'x Msg
     \<Rightarrow> panic + ('s RssFeedTab \<times> 'c Cmd option)" where
  "RssFeedTab_Update S E r msg =
     (case msg of
        FetchSuccessMessage title items \<Rightarrow>
          if \<not> r_loaded r \<and> WindowWidth S > 0 \<and> WindowHeight S > 0
          then Inr (loadTab S E r items, None)
          else Inr (updatePane E r msg)
      | KeyMsg k \<Rightarrow>
          if k = ''enter'' then
            (if \<not> r_loaded r then Inr (r, None)
             else
               (case list_SelectedItem (r_list r) of
                  None \<Rightarrow> Inl NilInterface
                | Some it \<Rightarrow>
                    (let r1 = r\<lparr>r_viewport := viewport_SetContent (r_viewport r) (GetContent it)\<rparr>;
                         r2 = (if \<not> r_isViewportOpen r1 then r1\<lparr>r_isViewportOpen := True\<rparr> else r1)
                     in Inr (r2, None))))
          else if k = ''left'' \<or> k = ''right'' then
            (if \<not> r_isViewportOpen r then Inr (r, None)
             else if r_selected r = articlesPreview
               then Inr (r\<lparr>r_selected := articlesList\<rparr>, None)
               else Inr (r\<lparr>r_selected := articlesPreview\<rparr>, None))
          else Inr (updatePane E r msg)
      | OtherMsg x \<Rightarrow>
          if \<not> r_loaded r then
            (let (s, cmd) = spinner_Update E (r_loadingSpinner r) msg
             in Inr (r\<lparr>r_loadingSpinner := s\<rparr>, map_option WidgetCmd cmd))
          else Inr (updatePane E r msg))"


section \<open>The category tab\<close>

text \<open>
  \<^verbatim>\<open>key.Binding\<close> and \<^verbatim>\<open>key.Matches\<close> of the bubbles library: a key event matches an
  enabled binding that lists its string.
\<close>

record Binding =
  binding_keys :: "string list"
  binding_disabled :: bool

definition NewBinding :: "string list \<Rightarrow> Binding" where
  "NewBinding ks = \<lparr>binding_keys = ks, binding_disabled = False\<rparr>"

definition key_Matches :: "string \<Rightarrow> Binding \<Rightarrow> bool" where
  "key_Matches k b = (k \<in> set (binding_keys b) \<and> \<not> binding_disabled b)"

record Keymap =
  CloseTab :: Binding
  CycleTabs :: Binding
  SelectFeed :: Binding
  NewFeed :: Binding
  EditFeed :: Binding
  DeleteFeed :: Binding

definition DefaultKeymap :: Keymap where
  "DefaultKeymap =
     \<lparr>CloseTab = NewBinding [''c'', ''ctrl+w''],
      CycleTabs = NewBinding [''tab''],
      SelectFeed = NewBinding [''enter''],
      NewFeed = NewBinding [''n'', ''ctrl+n''],
      EditFeed = NewBinding [''e'', ''ctrl+e''],
      DeleteFeed = NewBinding [''d'', ''ctrl+d'']\<rparr>"

text \<open>
  Modelled from the spec: \<^verbatim>\<open>simplelist.Model\<close>, the list widget of the category tab,
  is a package of this repository whose source is not at hand. The specification
  describes it as an ordered sequence of selectable items that supports a
  programmatic selection index, item replacement and an emptiness query; the
  record and the functions below are that description. \<^verbatim>\<open>SelectedItem\<close> has no
  item to return when the index is outside the items (\<^term>\<open>None\<close>). The widget's
  own \<^verbatim>\<open>Update\<close> and its lookup of an item by shortcut key, \<^verbatim>\<open>GetItem\<close>, are
  parameters of the tab's update.
\<close>

record simplelist_Model =
  sl_title :: string
  sl_height :: int
  sl_showDesc :: bool
  sl_items :: "ListItem list"
  sl_index :: int

definition simplelist_zero :: simplelist_Model where
  "simplelist_zero =
     \<lparr>sl_title = [], sl_height = 0, sl_showDesc = False, sl_items = [], sl_index = 0\<rparr>"

definition simplelist_New :: "string \<Rightarrow> int \<Rightarrow> bool \<Rightarrow> simplelist_Model" where
  "simplelist_New title height showDesc =
     \<lparr>sl_title = title, sl_height = height, sl_showDesc = showDesc, sl_items = [], sl_index = 0\<rparr>"

definition simplelist_SetItems :: "simplelist_Model \<Rightarrow> ListItem list \<Rightarrow> simplelist_Model" where
  "simplelist_SetItems l items = l\<lparr>sl_items := items\<rparr>"

definition simplelist_Items :: "simplelist_Model \<Rightarrow> ListItem list" where
  "simplelist_Items l = sl_items l"

definition simplelist_IsEmpty :: "simplelist_Model \<Rightarrow> bool" where
  "simplelist_IsEmpty l = (length (sl_items l) = 0)"

definition simplelist_Index :: "simplelist_Model \<Rightarrow> int" where
  "simplelist_Index l = sl_index l"

definition simplelist_SetIndex :: "simplelist_Model \<Rightarrow> int \<Rightarrow> simplelist_Model" where
  "simplelist_SetIndex l i = l\<lparr>sl_index := i\<rparr>"

definition simplelist_SetHeight :: "simplelist_Model \<Rightarrow> int \<Rightarrow> simplelist_Model" where
  "simplelist_SetHeight l h = l\<lparr>sl_height := h\<rparr>"

definition simplelist_SelectedItem :: "simplelist_Model \<Rightarrow> ListItem option" where
  "simplelist_SelectedItem l =
     (let i = sl_index l; items = sl_items l in
      if 0 \<le> i \<and> i < int (length items) then Some (items ! nat i) else None)"

record ('x, 'c) category_env =
  simplelist_Update :: "simplelist_Model \<Rightarrow> 'x Msg \<Rightarrow> simplelist_Model \<times> 'c option"
  simplelist_GetItem :: "simplelist_Model \<Rightarrow> string \<Rightarrow> ListItem option"

text \<open>
  \<^verbatim>\<open>Model\<close> of package category. The fields \<^verbatim>\<open>colors\<close> and \<^verbatim>\<open>help\<close> only style the
  output and \<^verbatim>\<open>reader\<close> is used by \<^verbatim>\<open>Init\<close> only; they are left out.
\<close>

record Model =
  m_width :: int
  m_height :: int
  m_title :: string
  m_loaded :: bool
  m_list :: simplelist_Model
  m_keymap :: Keymap

definition Model_New :: "int \<Rightarrow> int \<Rightarrow> string \<Rightarrow> Model" where
  "Model_New width height title =
     \<lparr>m_width = width, m_height = height, m_title = title, m_loaded = False,
      m_list = simplelist_zero, m_keymap = DefaultKeymap\<rparr>"

definition Model_SetSize :: "Model \<Rightarrow> int \<Rightarrow> int \<Rightarrow> Model" where
  "Model_SetSize m width height =
     (let m1 = m\<lparr>m_width := width, m_height := height\<rparr>
      in m1\<lparr>m_list := simplelist_SetHeight (m_list m1) (m_height m1)\<rparr>)"

text \<open>The tail of \<^verbatim>\<open>Update\<close>: the event goes to the list widget.\<close>

definition updateList ::
  "('x, 'c) category_env \<Rightarrow> Model \<Rightarrow> 'x Msg \<Rightarrow> Model \<times> 'c Cmd option" where
  "updateList E m msg =
     (let (l, cmd) = simplelist_Update E (m_list m) msg
      in (m\<lparr>m_list := l\<rparr>, map_option WidgetCmd cmd))"

text \<open>
  A method call through the \<^verbatim>\<open>nil\<close> that \<^verbatim>\<open>SelectedItem\<close> may return panics; the
  branches below that use the selected item go through \<open>withSelected\<close>.
\<close>

definition withSelected ::
  "simplelist_Model \<Rightarrow> (ListItem \<Rightarrow> 'a) \<Rightarrow> panic + 'a" where
  "withSelected l f =
     (case simplelist_SelectedItem l of None \<Rightarrow> Inl NilInterface | Some it \<Rightarrow> Inr (f it))"

definition Model_Update ::
  "('x, 'c) category_env \<Rightarrow> Model \<Rightarrow> 'x Msg \<Rightarrow> panic + (Model \<times> 'c Cmd option)" where
  "Model_Update E m msg =
     (case msg of
        FetchSuccessMessage title items \<Rightarrow>
          (let m1 = (if \<not> m_loaded m
                     then m\<lparr>m_list := simplelist_New (m_title m) (m_height m) False,
                            m_loaded := True\<rparr>
                     else m)
           in Inr (m1\<lparr>m_list := simplelist_SetItems (m_list m1) items\<rparr>, None))
      | KeyMsg k \<Rightarrow>
          if \<not> m_loaded m then Inr (m, None)
          else if key_Matches k (SelectFeed (m_keymap m)) then
            (if \<not> simplelist_IsEmpty (m_list m)
             then withSelected (m_list m) (\<lambda>it. (m, Some (NewTab (FilterValue it) Feed)))
             else Inr (m, None))
          else if key_Matches k (NewFeed (m_keymap m)) then
            Inr (m, Some (NewItem backend_Feed True [m_title m] None))
          else if key_Matches k (EditFeed (m_keymap m)) then
            (if simplelist_IsEmpty (m_list m) then Inr (m, None)
             else withSelected (m_list m) (\<lambda>it.
                    (m, Some (NewItem backend_Feed False [m_title m, FilterValue it]
                                (Some [FilterValue it, Description it])))))
          else if key_Matches k (DeleteFeed (m_keymap m)) then
            (if \<not> simplelist_IsEmpty (m_list m) then
               withSelected (m_list m) (\<lambda>it.
                 (let delItemName = FilterValue it;
                      itemCount = int (length (simplelist_Items (m_list m)));
                      l = (if itemCount = 1 then simplelist_SetIndex (m_list m) 0
                           else simplelist_SetIndex (m_list m)
                                  (go_rem (simplelist_Index (m_list m)) (itemCount - 1)))
                  in (m\<lparr>m_list := l\<rparr>, Some (DeleteItem backend_Feed delItemName))))
             else Inr (updateList E m msg))
          else
            (case simplelist_GetItem E (m_list m) k of
               Some item \<Rightarrow> Inr (m, Some (NewTab (FilterValue item) Feed))
             | None \<Rightarrow> Inr (updateList E m msg))
      | OtherMsg x \<Rightarrow> Inr (updateList E m msg))"

definition Model_View :: "(simplelist_Model \<Rightarrow> string) \<Rightarrow> Model \<Rightarrow> string" where
  "Model_View list_View m = (if \<not> m_loaded m then ''Loading...'' else list_View (m_list m))"

section \<open>An invariant of the feed tab, and concrete tabs\<close>


text \<open>
  Widgets that ignore every event, some articles and a feed tab titled \<open>A\<close>: the
  concrete inputs at which the properties below are evaluated.
\<close>

definition quiet_widgets :: "(unit, unit, unit) feed_env" where
  "quiet_widgets =
     \<lparr>list_Update = (\<lambda>l msg. (l, None)),
      viewport_Update = (\<lambda>v msg. (v, None)),
      spinner_Update = (\<lambda>s msg. (s, None)),
      WrapDescription = (\<lambda>it width. it)\<rparr>"

definition article :: "string \<Rightarrow> string \<Rightarrow> ListItem" where
  "article name body = \<lparr>FilterValue = name, Description = [], GetContent = body\<rparr>"

definition five_articles :: "ListItem list" where
  "five_articles = [article ''a1'' ''body 1'', article ''a2'' ''body 2'', article ''a3'' ''body 3'',
     article ''a4'' ''body 4'', article ''a5'' ''body 5'']"

definition window :: "int \<Rightarrow> int \<Rightarrow> style" where
  "window w h = \<lparr>WindowWidth = w, WindowHeight = h\<rparr>"

definition tabA :: "unit RssFeedTab" where
  "tabA = RssFeedTab_New ''A'' 0 ()"

definition tabA_loaded :: "unit RssFeedTab" where
  "tabA_loaded = loadTab (window 100 30) quiet_widgets tabA five_articles"

definition tabA_empty :: "unit RssFeedTab" where
  "tabA_empty = loadTab (window 100 30) quiet_widgets tabA []"

definition tabA_split :: "unit RssFeedTab" where
  "tabA_split = tabA_loaded\<lparr>r_viewport := viewport_SetContent (r_viewport tabA_loaded) ''body 1'',
     r_isViewportOpen := True\<rparr>"

definition tabA_third :: "unit RssFeedTab" where
  "tabA_third = tabA_split\<lparr>r_list := (r_list tabA_split)\<lparr>list_index := 2\<rparr>\<rparr>"

text \<open>
  A list widget that ignores every event and knows no shortcut, some feed entries,
  and category tabs titled \<open>A\<close>: not loaded, and loaded with given items and index.
\<close>

definition quiet_list :: "(unit, unit) category_env" where
  "quiet_list =
     \<lparr>simplelist_Update = (\<lambda>l msg. (l, None)),
      simplelist_GetItem = (\<lambda>l k. None)\<rparr>"

definition feed_entry :: "string \<Rightarrow> string \<Rightarrow> ListItem" where
  "feed_entry name url = \<lparr>FilterValue = name, Description = url, GetContent = []\<rparr>"

definition three_feeds :: "ListItem list" where
  "three_feeds = [feed_entry ''f1'' ''u1'', feed_entry ''f2'' ''u2'', feed_entry ''f3'' ''u3'']"

definition catA :: Model where
  "catA = Model_New 100 30 ''A''"

definition cat_with :: "ListItem list \<Rightarrow> int \<Rightarrow> Model" where
  "cat_with items i =
     catA\<lparr>m_loaded := True,
          m_list := simplelist_SetIndex
            (simplelist_SetItems (simplelist_New ''A'' 30 False) items) i\<rparr>"

section \<open>Properties of the feed tab\<close>

lemma go_quo_pos: "0 \<le> a \<Longrightarrow> 0 < b \<Longrightarrow> go_quo a b = a div b"
  by (simp add: go_quo_def)

lemma go_rem_pos: "0 \<le> a \<Longrightarrow> 0 < b \<Longrightarrow> go_rem a b = a mod b"
  by (simp add: go_rem_def go_quo_pos minus_mult_div_eq_mod)

lemma updatePane_loaded: "r_loaded (fst (updatePane E r msg)) = r_loaded r"
  by (simp add: updatePane_def split: prod.splits)

lemma updatePane_open: "r_isViewportOpen (fst (updatePane E r msg)) = r_isViewportOpen r"
  by (simp add: updatePane_def split: prod.splits)












lemma tabA_loaded_simps:
  "r_loaded tabA_loaded" "r_selected tabA_loaded = articlesList"
  "\<not> r_isViewportOpen tabA_loaded" "list_items (r_list tabA_loaded) = five_articles"
  "list_index (r_list tabA_loaded) = 0"
  by (simp_all add: tabA_loaded_def tabA_def RssFeedTab_New_def loadTab_def Let_def list_New_def
        quiet_widgets_def)

text \<open>
  C3. A feed tab that is loaded stays loaded on every later fetch-success event, and
  the tab never installs the event's items: the event is handed to the pane that has
  the focus. The items of the list are therefore those of the first fetch, given that
  the list widget itself, which does not know this event, leaves its items alone
  when the event reaches it (the hypothesis on \<open>list_Update\<close>).
\<close>

theorem feed_later_fetch_keeps_items:
  assumes "r_loaded r"
    and "list_items (fst (list_Update E (r_list r) (FetchSuccessMessage t items)))
           = list_items (r_list r)"
  shows "\<exists>r' cmd. RssFeedTab_Update S E r (FetchSuccessMessage t items) = Inr (r', cmd) \<and>
           r_loaded r' \<and> list_items (r_list r') = list_items (r_list r)"
  using assms
  by (auto simp: RssFeedTab_Update_def updatePane_def split: prod.splits)

theorem feed_later_fetch_keeps_items_witness:
  "r_loaded tabA_loaded \<and>
   list_items (fst (list_Update quiet_widgets (r_list tabA_loaded)
      (FetchSuccessMessage ''A'' [article ''other'' ''text''])))
     = list_items (r_list tabA_loaded) \<and>
   (\<exists>r' cmd. RssFeedTab_Update (window 100 30) quiet_widgets tabA_loaded
        (FetchSuccessMessage ''A'' [article ''other'' ''text'']) = Inr (r', cmd) \<and>
      r_loaded r' \<and> list_items (r_list r') = five_articles)"
proof -
  have l: "r_loaded tabA_loaded" by (rule tabA_loaded_simps)
  have w: "list_items (fst (list_Update quiet_widgets (r_list tabA_loaded)
      (FetchSuccessMessage ''A'' [article ''other'' ''text''])))
     = list_items (r_list tabA_loaded)"
    by (simp add: quiet_widgets_def)
  show ?thesis
    using l w feed_later_fetch_keeps_items [OF l w, of "window 100 30"]
    by (simp add: tabA_loaded_simps)
qed

text \<open>
  C7. \<^verbatim>\<open>Update\<close> preserves both latches of the feed tab on every event: a loaded tab
  stays loaded, and an open split view stays open.
\<close>

theorem feed_latches_preserved:
  assumes "RssFeedTab_Update S E r msg = Inr (r', cmd)"
  shows "(r_loaded r \<longrightarrow> r_loaded r') \<and> (r_isViewportOpen r \<longrightarrow> r_isViewportOpen r')"
proof (cases msg)
  case (FetchSuccessMessage t items)
  with assms show ?thesis
    using updatePane_loaded [of E r msg] updatePane_open [of E r msg]
    by (auto simp: RssFeedTab_Update_def loadTab_def Let_def split: if_splits)
next
  case (KeyMsg k)
  with assms show ?thesis
    using updatePane_loaded [of E r msg] updatePane_open [of E r msg]
    by (auto simp: RssFeedTab_Update_def Let_def split: if_splits option.splits)
next
  case (OtherMsg x)
  with assms show ?thesis
    using updatePane_loaded [of E r msg] updatePane_open [of E r msg]
    by (auto simp: RssFeedTab_Update_def split: if_splits prod.splits)
qed

theorem feed_latches_preserved_witness:
  "RssFeedTab_Update (window 100 30) quiet_widgets tabA_split (KeyMsg ''right'')
     = Inr (tabA_split\<lparr>r_selected := articlesPreview\<rparr>, None) \<and>
   r_loaded tabA_split \<and> r_isViewportOpen tabA_split \<and>
   r_loaded (tabA_split\<lparr>r_selected := articlesPreview\<rparr>) \<and>
   r_isViewportOpen (tabA_split\<lparr>r_selected := articlesPreview\<rparr>)"
proof -
  have step: "RssFeedTab_Update (window 100 30) quiet_widgets tabA_split (KeyMsg ''right'')
     = Inr (tabA_split\<lparr>r_selected := articlesPreview\<rparr>, None)"
    by (simp add: RssFeedTab_Update_def tabA_split_def tabA_loaded_simps)
  have before: "r_loaded tabA_split \<and> r_isViewportOpen tabA_split"
    by (simp add: tabA_split_def tabA_loaded_simps)
  show ?thesis
    using step before feed_latches_preserved [OF step] by simp
qed

text \<open>
  C8. On a \<open>left\<close> or \<open>right\<close> key the feed tab does nothing (same state, no
  command) while the split view is closed; once it is open the key moves the focus
  from the list to the preview and from the preview to the list.
\<close>

theorem feed_left_right_toggle:
  assumes "k = ''left'' \<or> k = ''right''"
  shows "(\<not> r_isViewportOpen r \<longrightarrow> RssFeedTab_Update S E r (KeyMsg k) = Inr (r, None)) \<and>
         (r_isViewportOpen r \<and> r_selected r = articlesList \<longrightarrow>
            RssFeedTab_Update S E r (KeyMsg k) = Inr (r\<lparr>r_selected := articlesPreview\<rparr>, None)) \<and>
         (r_isViewportOpen r \<and> r_selected r = articlesPreview \<longrightarrow>
            RssFeedTab_Update S E r (KeyMsg k) = Inr (r\<lparr>r_selected := articlesList\<rparr>, None))"
  using assms by (auto simp: RssFeedTab_Update_def)

theorem feed_left_right_toggle_witness:
  "RssFeedTab_Update (window 100 30) quiet_widgets tabA_loaded (KeyMsg ''right'')
     = Inr (tabA_loaded, None) \<and>
   RssFeedTab_Update (window 100 30) quiet_widgets tabA_loaded (KeyMsg ''left'')
     = Inr (tabA_loaded, None) \<and>
   r_isViewportOpen tabA_split \<and> r_selected tabA_split = articlesList \<and>
   RssFeedTab_Update (window 100 30) quiet_widgets tabA_split (KeyMsg ''right'')
     = Inr (tabA_split\<lparr>r_selected := articlesPreview\<rparr>, None) \<and>
   RssFeedTab_Update (window 100 30) quiet_widgets (tabA_split\<lparr>r_selected := articlesPreview\<rparr>)
      (KeyMsg ''left'') = Inr (tabA_split\<lparr>r_selected := articlesList\<rparr>, None)"
  using feed_left_right_toggle [of "''right''" tabA_loaded "window 100 30" quiet_widgets]
    feed_left_right_toggle [of "''left''" tabA_loaded "window 100 30" quiet_widgets]
    feed_left_right_toggle [of "''right''" tabA_split "window 100 30" quiet_widgets]
    feed_left_right_toggle [of "''left''" "tabA_split\<lparr>r_selected := articlesPreview\<rparr>"
      "window 100 30" quiet_widgets]
  by (simp add: tabA_split_def tabA_loaded_simps)

text \<open>
  C9. On an \<open>enter\<close> key a feed tab that is not loaded is unchanged. On a loaded tab
  whose list has a selected item, the viewport content becomes the long-form body of
  that item and the split view is open afterwards; the focused pane and every other
  field are as before. This holds whether or not the split view was already open, so
  a second \<open>enter\<close> on another selection replaces the content and keeps the focus.
\<close>

theorem feed_enter_opens_preview:
  "(\<not> r_loaded r \<longrightarrow> RssFeedTab_Update S E r (KeyMsg ''enter'') = Inr (r, None)) \<and>
   (r_loaded r \<and> list_SelectedItem (r_list r) = Some it \<longrightarrow>
      (\<exists>r'. RssFeedTab_Update S E r (KeyMsg ''enter'') = Inr (r', None) \<and>
         r' = r\<lparr>r_viewport := viewport_SetContent (r_viewport r) (GetContent it),
                r_isViewportOpen := True\<rparr> \<and>
         viewport_content (r_viewport r') = GetContent it \<and>
         r_isViewportOpen r' \<and> r_selected r' = r_selected r))"
  by (auto simp: RssFeedTab_Update_def Let_def viewport_SetContent_def)

theorem feed_enter_opens_preview_witness:
  "RssFeedTab_Update (window 100 30) quiet_widgets tabA (KeyMsg ''enter'') = Inr (tabA, None) \<and>
   list_SelectedItem (r_list tabA_loaded) = Some (article ''a1'' ''body 1'') \<and>
   RssFeedTab_Update (window 100 30) quiet_widgets tabA_loaded (KeyMsg ''enter'')
     = Inr (tabA_split, None) \<and>
   viewport_content (r_viewport tabA_split) = ''body 1'' \<and>
   r_selected tabA_split = articlesList \<and>
   list_SelectedItem (r_list tabA_third) = Some (article ''a3'' ''body 3'') \<and>
   (\<exists>r'. RssFeedTab_Update (window 100 30) quiet_widgets tabA_third (KeyMsg ''enter'')
        = Inr (r', None) \<and>
      viewport_content (r_viewport r') = ''body 3'' \<and> r_isViewportOpen r' \<and>
      r_selected r' = articlesList)"
proof -
  have fresh: "\<not> r_loaded tabA" by (simp add: tabA_def RssFeedTab_New_def)
  have s1: "list_SelectedItem (r_list tabA_loaded) = Some (article ''a1'' ''body 1'')"
    by (simp add: list_SelectedItem_def tabA_loaded_simps five_articles_def)
  have s3: "list_SelectedItem (r_list tabA_third) = Some (article ''a3'' ''body 3'')"
    by (simp add: list_SelectedItem_def tabA_third_def tabA_split_def tabA_loaded_simps
          five_articles_def)
  have l3: "r_loaded tabA_third" "r_selected tabA_third = articlesList"
    by (simp_all add: tabA_third_def tabA_split_def tabA_loaded_simps)
  show ?thesis
    using fresh s1 s3 l3
      feed_enter_opens_preview [where r = tabA and S = "window 100 30" and E = quiet_widgets]
      feed_enter_opens_preview [where r = tabA_loaded and it = "article ''a1'' ''body 1''"
        and S = "window 100 30" and E = quiet_widgets]
      feed_enter_opens_preview [where r = tabA_third and it = "article ''a3'' ''body 3''"
        and S = "window 100 30" and E = quiet_widgets]
    by (simp add: tabA_loaded_simps tabA_split_def article_def viewport_SetContent_def)
qed

text \<open>
  C10. \<^verbatim>\<open>Update\<close> does not always return: a feed tab that was loaded by a fetch with no
  items panics on \<open>enter\<close>, since \<^verbatim>\<open>SelectedItem\<close> is \<^verbatim>\<open>nil\<close> and the type assertion
  \<^verbatim>\<open>r.list.SelectedItem().(simpleList.ListItem)\<close> fails. The category tab guards
  the same access with \<^verbatim>\<open>IsEmpty\<close>.
\<close>

theorem feed_enter_on_empty_list_panics:
  "RssFeedTab_Update (window 100 30) quiet_widgets tabA (FetchSuccessMessage ''A'' [])
     = Inr (tabA_empty, None) \<and>
   r_loaded tabA_empty \<and> list_items (r_list tabA_empty) = [] \<and>
   RssFeedTab_Update (window 100 30) quiet_widgets tabA_empty (KeyMsg ''enter'')
     = Inl NilInterface"
  by (simp add: RssFeedTab_Update_def tabA_empty_def tabA_def RssFeedTab_New_def window_def
        loadTab_def Let_def list_New_def list_SelectedItem_def)

section \<open>Properties of the category tab\<close>

lemma Model_Update_fetch:
  "Model_Update E m (FetchSuccessMessage t items) =
     Inr (m\<lparr>m_list := simplelist_SetItems
                 (if m_loaded m then m_list m else simplelist_New (m_title m) (m_height m) False)
                 items,
             m_loaded := True\<rparr>, None)"
  by (simp add: Model_Update_def Let_def)

lemma updateList_loaded: "m_loaded (fst (updateList E m msg)) = m_loaded m"
  by (simp add: updateList_def split: prod.splits)

lemma Model_Update_loaded:
  assumes "m_loaded m" and "Model_Update E m msg = Inr (m', cmd)"
  shows "m_loaded m'"
proof (cases msg)
  case (FetchSuccessMessage t items)
  with assms show ?thesis by (auto simp: Model_Update_fetch)
next
  case (KeyMsg k)
  with assms show ?thesis
    using updateList_loaded [of E m msg]
    by (auto simp: Model_Update_def withSelected_def Let_def split: if_splits option.splits)
next
  case (OtherMsg x)
  with assms show ?thesis
    using updateList_loaded [of E m msg] by (auto simp: Model_Update_def)
qed

text \<open>
  C4. On every fetch-success event the category tab returns with its items replaced
  by the items of the event and with \<open>loaded\<close> true; when the tab was not loaded the
  list widget is first constructed (from the tab's title and height), otherwise the
  list at hand gets the items. No event makes a loaded category tab unloaded.
\<close>

theorem category_fetch_replaces_items:
  "(\<exists>m'. Model_Update E m (FetchSuccessMessage t items) = Inr (m', None) \<and>
      simplelist_Items (m_list m') = items \<and> m_loaded m' \<and>
      (\<not> m_loaded m \<longrightarrow>
         m_list m' = simplelist_SetItems (simplelist_New (m_title m) (m_height m) False) items) \<and>
      (m_loaded m \<longrightarrow> m_list m' = simplelist_SetItems (m_list m) items)) \<and>
   (\<forall>msg m2 cmd. m_loaded m \<and> Model_Update E m msg = Inr (m2, cmd) \<longrightarrow> m_loaded m2)"
  using Model_Update_loaded [of m E]
  by (auto simp: Model_Update_fetch simplelist_Items_def simplelist_SetItems_def)


lemma cat_with_simps:
  "m_loaded (cat_with items i)" "m_keymap (cat_with items i) = DefaultKeymap"
  "simplelist_Items (m_list (cat_with items i)) = items"
  "simplelist_Index (m_list (cat_with items i)) = i"
  "m_title (cat_with items i) = ''A''"
  by (simp_all add: cat_with_def catA_def Model_New_def simplelist_Items_def simplelist_Index_def
        simplelist_SetIndex_def simplelist_SetItems_def simplelist_New_def)

lemma catA_first_fetch:
  "Model_Update quiet_list catA (FetchSuccessMessage t items) = Inr (cat_with items 0, None)"
  by (simp add: Model_Update_fetch cat_with_def catA_def Model_New_def simplelist_SetIndex_def
        simplelist_SetItems_def simplelist_New_def)

theorem category_fetch_replaces_items_witness:
  "\<not> m_loaded catA \<and>
   (\<exists>m'. Model_Update quiet_list catA (FetchSuccessMessage ''A'' three_feeds) = Inr (m', None) \<and>
      simplelist_Items (m_list m') = three_feeds \<and> m_loaded m' \<and>
      m_list m' = simplelist_SetItems (simplelist_New ''A'' 30 False) three_feeds) \<and>
   m_loaded (cat_with three_feeds 0) \<and>
   (\<exists>m'. Model_Update quiet_list (cat_with three_feeds 0)
        (FetchSuccessMessage ''A'' [feed_entry ''g1'' ''v1'']) = Inr (m', None) \<and>
      simplelist_Items (m_list m') = [feed_entry ''g1'' ''v1''] \<and> m_loaded m')"
proof -
  have fresh: "\<not> m_loaded catA" "m_title catA = ''A''" "m_height catA = 30"
    by (simp_all add: catA_def Model_New_def)
  show ?thesis
    using fresh cat_with_simps(1) [of three_feeds 0]
      category_fetch_replaces_items [of quiet_list catA "''A''" three_feeds]
      category_fetch_replaces_items [of quiet_list "cat_with three_feeds 0" "''A''"
        "[feed_entry ''g1'' ''v1'']"]
    by auto
qed

lemma DefaultKeymap_delete:
  assumes "k = ''d'' \<or> k = ''ctrl+d''"
  shows "\<not> key_Matches k (SelectFeed DefaultKeymap)" "\<not> key_Matches k (NewFeed DefaultKeymap)"
    "\<not> key_Matches k (EditFeed DefaultKeymap)" "key_Matches k (DeleteFeed DefaultKeymap)"
  using assms by (auto simp: key_Matches_def DefaultKeymap_def NewBinding_def)



text \<open>
  C5. On a loaded category tab with the default keymap, whose list has \<open>n\<close> items and
  the selection at index \<open>i\<close> (with \<open>0 \<le> i < n\<close>), the Delete key (\<open>d\<close> or \<open>ctrl+d\<close>)
  returns the command that deletes the feed named by the selected item, and sets the
  selection index to \<open>0\<close> when \<open>n = 1\<close> and to \<open>i mod (n - 1)\<close> otherwise; nothing
  else of the tab changes.
\<close>

theorem category_delete_moves_selection:
  assumes "m_loaded m" and "m_keymap m = DefaultKeymap"
    and "k = ''d'' \<or> k = ''ctrl+d''"
    and "n = int (length (simplelist_Items (m_list m)))"
    and "i = simplelist_Index (m_list m)" and "0 \<le> i" and "i < n"
  shows "\<exists>m'. Model_Update E m (KeyMsg k) =
            Inr (m', Some (DeleteItem backend_Feed
                   (FilterValue (simplelist_Items (m_list m) ! nat i)))) \<and>
          m' = m\<lparr>m_list := simplelist_SetIndex (m_list m) (if n = 1 then 0 else i mod (n - 1))\<rparr> \<and>
          simplelist_Index (m_list m') = (if n = 1 then 0 else i mod (n - 1))"
proof -
  have sel: "simplelist_SelectedItem (m_list m) = Some (simplelist_Items (m_list m) ! nat i)"
    using assms(4-7)
    by (simp add: simplelist_SelectedItem_def simplelist_Items_def simplelist_Index_def Let_def)
  have nonempty: "\<not> simplelist_IsEmpty (m_list m)"
    using assms(4-7) by (auto simp: simplelist_IsEmpty_def simplelist_Items_def)
  have rem: "n \<noteq> 1 \<Longrightarrow> go_rem i (n - 1) = i mod (n - 1)"
    using assms(6,7) by (intro go_rem_pos) auto
  show ?thesis
    using assms(1,2,4,5) DefaultKeymap_delete [OF assms(3)] sel nonempty rem
    by (simp add: Model_Update_def withSelected_def Let_def simplelist_Index_def
          simplelist_SetIndex_def)
qed

theorem category_delete_moves_selection_witness:
  "(\<exists>m'. Model_Update quiet_list (cat_with three_feeds 2) (KeyMsg ''d'') =
            Inr (m', Some (DeleteItem backend_Feed ''f3'')) \<and>
          simplelist_Index (m_list m') = 0) \<and>
   (\<exists>m'. Model_Update quiet_list (cat_with three_feeds 1) (KeyMsg ''ctrl+d'') =
            Inr (m', Some (DeleteItem backend_Feed ''f2'')) \<and>
          simplelist_Index (m_list m') = 1) \<and>
   (\<exists>m'. Model_Update quiet_list (cat_with [feed_entry ''f1'' ''u1''] 0) (KeyMsg ''d'') =
            Inr (m', Some (DeleteItem backend_Feed ''f1'')) \<and>
          simplelist_Index (m_list m') = 0)"
  using
    category_delete_moves_selection [of "cat_with three_feeds 2" "''d''" 3 2 quiet_list]
    category_delete_moves_selection [of "cat_with three_feeds 1" "''ctrl+d''" 3 1 quiet_list]
    category_delete_moves_selection [of "cat_with [feed_entry ''f1'' ''u1''] 0" "''d''" 1 0
      quiet_list]
  by (simp add: cat_with_simps three_feeds_def feed_entry_def)



section \<open>The title of a fetch-success event\<close>

text \<open>
  C2 (as amended). Neither tab compares the title carried by a fetch-success event
  with its own title. Whatever the title of the event, a feed tab that is not loaded
  loads the event's items when both window dimensions are positive, and a category
  tab replaces its items by the event's.
\<close>

theorem fetch_title_not_compared:
  "(\<not> r_loaded r \<and> 0 < WindowWidth S \<and> 0 < WindowHeight S \<longrightarrow>
      (\<exists>r'. RssFeedTab_Update S E r (FetchSuccessMessage t items) = Inr (r', None) \<and>
         r_loaded r' \<and>
         list_items (r_list r') = map (\<lambda>it. WrapDescription E it (WindowWidth S div 4)) items)) \<and>
   (\<exists>m'. Model_Update C m (FetchSuccessMessage t' feeds) = Inr (m', None) \<and>
      m_loaded m' \<and> simplelist_Items (m_list m') = feeds)"
  by (auto simp: RssFeedTab_Update_def loadTab_def Let_def list_New_def go_quo_pos
        Model_Update_fetch simplelist_Items_def simplelist_SetItems_def)

theorem fetch_title_not_compared_witness:
  "r_title tabA = ''A'' \<and> \<not> r_loaded tabA \<and>
   (\<exists>r'. RssFeedTab_Update (window 100 30) quiet_widgets tabA
        (FetchSuccessMessage ''B'' five_articles) = Inr (r', None) \<and>
      r_loaded r' \<and> list_items (r_list r') = five_articles) \<and>
   m_title catA = ''A'' \<and>
   (\<exists>m'. Model_Update quiet_list catA (FetchSuccessMessage ''B'' three_feeds) = Inr (m', None) \<and>
      m_loaded m' \<and> simplelist_Items (m_list m') = three_feeds)"
  using fetch_title_not_compared [where r = tabA and S = "window 100 30" and E = quiet_widgets
      and t = "''B''" and items = five_articles and C = quiet_list and m = catA
      and t' = "''B''" and feeds = three_feeds]
  by (simp add: tabA_def RssFeedTab_New_def window_def quiet_widgets_def catA_def Model_New_def)

text \<open>
  C2 as first stated says that a fetch-success event with another title leaves the
  tab unchanged. Both tabs titled \<open>A\<close> accept an event titled \<open>B\<close>.
\<close>

theorem fetch_title_mismatch_counterexample:
  "r_title tabA \<noteq> ''B'' \<and>
   RssFeedTab_Update (window 100 30) quiet_widgets tabA (FetchSuccessMessage ''B'' five_articles)
     = Inr (tabA_loaded, None) \<and>
   tabA_loaded \<noteq> tabA \<and> r_loaded tabA_loaded \<and>
   m_title catA \<noteq> ''B'' \<and>
   Model_Update quiet_list catA (FetchSuccessMessage ''B'' three_feeds)
     = Inr (cat_with three_feeds 0, None) \<and>
   cat_with three_feeds 0 \<noteq> catA \<and> m_loaded (cat_with three_feeds 0)"
proof -
  have fresh: "\<not> r_loaded tabA" "r_title tabA = ''A''"
    by (simp_all add: tabA_def RssFeedTab_New_def)
  have "RssFeedTab_Update (window 100 30) quiet_widgets tabA
      (FetchSuccessMessage ''B'' five_articles) = Inr (tabA_loaded, None)"
    using fresh by (simp add: RssFeedTab_Update_def window_def tabA_loaded_def)
  moreover have "tabA_loaded \<noteq> tabA"
    using fresh tabA_loaded_simps(1) by auto
  moreover have "cat_with three_feeds 0 \<noteq> catA"
    using cat_with_simps(1) [of three_feeds 0] by (auto simp: catA_def Model_New_def)
  moreover have "m_title catA \<noteq> ''B''" by (simp add: catA_def Model_New_def)
  ultimately show ?thesis
    using fresh cat_with_simps(1) [of three_feeds 0] tabA_loaded_simps(1)
    by (simp add: catA_first_fetch)
qed

end
